theory Spec2Isabelle
  imports Main
begin

section \<open>The report cache of \<^verbatim>\<open>src/lib/impact-reports.ts\<close>\<close>

text \<open>
  The module keeps a process-wide list of merged reports (\<^verbatim>\<open>let reports: Report[] | null\<close>),
  fills it lazily from three remote collaborators (the claim indexer, the metadata
  storage, the CMS with its funding lookup) and mutates one field of one report when a
  payment arrives. The embedding below passes the module's variables as an explicit
  \<open>store\<close>, takes the remote collaborators as a record of functions, returns every
  \<^verbatim>\<open>throw\<close> as the left summand of a sum, and resolves the \<^verbatim>\<open>Promise.all\<close> over the
  per-claim callbacks by an explicit schedule, so that every completion order of the
  lookups is an input of the model.
\<close>

subsection \<open>Numbers\<close>

text \<open>
  A JavaScript \<^verbatim>\<open>number\<close> is an IEEE-754 double. The model carries the doubles that
  are integers, \<^verbatim>\<open>NaN\<close> and the two infinities. Fractions are outside the model, and the
  two zeros are one.
\<close>

datatype number = Num int | NaN | PosInfinity | NegInfinity

function binary_digits :: "int \<Rightarrow> nat" where
  "binary_digits m = (if m \<le> 0 then 0 else Suc (binary_digits (m div 2)))"
  by pat_completeness auto
termination
  by (relation "measure nat") auto

declare binary_digits.simps [simp del]

text \<open>
  The double nearest to an integer: integers below \<open>2 ^ 53\<close> in magnitude are doubles;
  a larger one keeps its 53 leading binary digits, rounded to nearest with ties to the
  even significand, and overflows to an infinity from \<open>2 ^ 1024\<close> on.
\<close>

definition round_double :: "int \<Rightarrow> number" where
  "round_double n =
     (let m = \<bar>n\<bar> in
      if m < 2 ^ 53 then Num n
      else
        let q = 2 ^ (binary_digits m - 53);
            d = m div q;
            r = m mod q;
            d' = (if 2 * r < q then d else if q < 2 * r then d + 1
                  else if even d then d else d + 1)
        in if 2 ^ 1024 \<le> d' * q then (if n < 0 then NegInfinity else PosInfinity)
           else Num (if n < 0 then - (d' * q) else d' * q))"

text \<open>\<^verbatim>\<open>x + y\<close> on numbers: the exact sum, rounded.\<close>

fun add :: "number \<Rightarrow> number \<Rightarrow> number" where
  "add (Num a) (Num b) = round_double (a + b)"
| "add NaN _ = NaN"
| "add _ NaN = NaN"
| "add PosInfinity NegInfinity = NaN"
| "add NegInfinity PosInfinity = NaN"
| "add PosInfinity _ = PosInfinity"
| "add _ PosInfinity = PosInfinity"
| "add NegInfinity _ = NegInfinity"
| "add _ NegInfinity = NegInfinity"

definition digit :: "char \<Rightarrow> bool" where
  "digit c = (c \<in> set ''0123456789'')"

definition digit_value :: "char \<Rightarrow> int" where
  "digit_value c = int (of_char c) - 48"

definition decimal :: "string \<Rightarrow> int" where
  "decimal ds = foldl (\<lambda>n c. 10 * n + digit_value c) 0 ds"

text \<open>
  The built-in \<^verbatim>\<open>Number(s)\<close> on a string: the empty string is \<open>0\<close>, an optionally signed
  run of decimal digits is its value, and a string that is no numeric literal is
  \<^verbatim>\<open>NaN\<close>. Literals with surrounding white space, a fraction, an exponent or a radix
  prefix, and \<^verbatim>\<open>Infinity\<close>, are not used below and fall into the last case.
\<close>

fun Number :: "string \<Rightarrow> number" where
  "Number [] = Num 0"
| "Number (c # cs) =
     (if c = CHR ''-'' \<and> cs \<noteq> [] \<and> list_all digit cs then round_double (- decimal cs)
      else if c = CHR ''+'' \<and> cs \<noteq> [] \<and> list_all digit cs then round_double (decimal cs)
      else if list_all digit (c # cs) then round_double (decimal (c # cs))
      else NaN)"

subsection \<open>Thrown values\<close>

text \<open>
  The module throws only \<^verbatim>\<open>new Error(message)\<close>; the optional chain on an empty
  properties list throws the engine's \<^verbatim>\<open>TypeError\<close>; a collaborator rejects with a value
  of its own, of which the module uses nothing but its string conversion. An error is
  wrapped by interpolating it into the message of a new one (\<^verbatim>\<open>`...: ${error}`\<close>), which
  is \<open>toString\<close>.
\<close>

datatype error = Error string | TypeError string | Rejected string

fun toString :: "error \<Rightarrow> string" where
  "toString (Error m) = ''Error: '' @ m"
| "toString (TypeError m) = ''TypeError: '' @ m"
| "toString (Rejected v) = v"

definition quoted :: "string \<Rightarrow> string" where
  "quoted s = [CHR 0x27] @ s @ [CHR 0x27]"

subsection \<open>Data model\<close>

text \<open>
  \<^verbatim>\<open>Claim\<close>, \<^verbatim>\<open>Report\<close> (\<^verbatim>\<open>@/types\<close>), the CMS record (\<^verbatim>\<open>./directus\<close>) and
  \<^verbatim>\<open>HypercertMetadata\<close> (the SDK) are declared outside the two source files; the records
  carry the fields that \<^verbatim>\<open>fetchReports\<close> reads and writes. A field the source reads
  through \<^verbatim>\<open>?.\<close> is an \<open>option\<close>, and so are the \<^verbatim>\<open>trait_type\<close> and \<^verbatim>\<open>value\<close> of a
  property, which the SDK declares optional (\<^verbatim>\<open>value?: string\<close>). Where two records of the source share a field name, the
  input side carries a prefix (\<open>cms_\<close>, \<open>md_\<close>) and the \<open>Report\<close> keeps the source's name;
  \<^verbatim>\<open>claim.id\<close> is \<open>claim_id\<close>.
\<close>

record Claim =
  claim_id :: string
  uri :: string

record Property =
  trait_type :: "string option"
  "value" :: "string option"

record HypercertClaimdata =
  work_scope_value :: "string list option"
  work_timeframe_display_value :: "string option"
  impact_scope_display_value :: "string option"
  impact_timeframe_display_value :: "string option"
  contributors_value :: "string list option"

record HypercertMetadata =
  name :: string
  description :: string
  md_image :: string
  external_url :: "string option"
  properties :: "Property list option"
  hypercert :: "HypercertClaimdata option"

record CMSReport =
  cms_id :: string
  cms_title :: string
  cms_status :: string
  date_created :: string
  cms_slug :: string
  cms_story :: string
  bc_ratio :: number
  villages_impacted :: number
  people_impacted :: number
  verified_by :: string
  date_updated :: string
  cms_byline :: string
  total_cost :: string

record Report =
  hypercertId :: string
  title :: string
  summary :: string
  image :: string
  originalReportUrl :: "string option"
  state :: "string option"
  category :: "string option"
  workTimeframe :: "string option"
  impactScope :: "string option"
  impactTimeframe :: "string option"
  contributors :: "string list option"
  cmsId :: string
  status :: string
  dateCreated :: string
  slug :: string
  story :: string
  bcRatio :: number
  villagesImpacted :: number
  peopleImpacted :: number
  verifiedBy :: string
  dateUpdated :: string
  byline :: string
  totalCost :: number
  fundedSoFar :: number

subsection \<open>Collaborators and module state\<close>

text \<open>
  The remote collaborators: \<^verbatim>\<open>indexer.claimsByOwner\<close>, \<^verbatim>\<open>storage.getMetadata\<close>, and
  \<^verbatim>\<open>getCMSReports\<close>, \<^verbatim>\<open>getFundedAmountByHCId\<close> of \<^verbatim>\<open>./directus\<close>. Each call settles, with
  a value or with a rejection; during one call of \<^verbatim>\<open>fetchReports\<close> a collaborator
  answers equal requests equally.
\<close>

record Remote =
  claimsByOwner :: "string \<Rightarrow> error + Claim list"
  getMetadata :: "string \<Rightarrow> error + HypercertMetadata"
  getCMSReports :: "error + CMSReport list"
  getFundedAmountByHCId :: "string \<Rightarrow> error + number"

datatype call =
  ClaimsByOwner string | GetMetadata string | GetCMSReports | GetFundedAmountByHCId string

datatype HypercertClient = HypercertClient (chain_id: nat)

text \<open>
  The module's variables: \<^verbatim>\<open>reports\<close>, \<^verbatim>\<open>hypercertClient\<close>, whether \<^verbatim>\<open>reportsMutex\<close> is
  held, and (a ghost field) the remote calls issued so far, in the order they were
  issued. Exported calls run one after another: the model does not interleave two of
  them.
\<close>

record store =
  reports :: "Report list option"
  hypercertClient :: "HypercertClient option"
  reportsMutex_locked :: bool
  calls :: "call list"

definition initial :: store where
  "initial = \<lparr>reports = None, hypercertClient = None, reportsMutex_locked = False, calls = []\<rparr>"

definition getHypercertClient :: "store \<Rightarrow> HypercertClient \<times> store" where
  "getHypercertClient s =
     (case hypercertClient s of
        Some c \<Rightarrow> (c, s)
      | None \<Rightarrow> (HypercertClient 11155111, s\<lparr>hypercertClient := Some (HypercertClient 11155111)\<rparr>))"

definition getHypercertClaims :: "Remote \<Rightarrow> string \<Rightarrow> store \<Rightarrow> (error + Claim list) \<times> store" where
  "getHypercertClaims w ownerAddress s =
     (let s' = s\<lparr>calls := calls s @ [ClaimsByOwner ownerAddress]\<rparr> in
      case claimsByOwner w ownerAddress of
        Inr claims \<Rightarrow> (Inr claims, s')
      | Inl e \<Rightarrow>
          (Inl (Error (''[Hypercerts] Failed to fetch claims owned by '' @ ownerAddress
                        @ '': '' @ toString e)), s'))"

text \<open>
  \<^verbatim>\<open>getHypercertMetadata\<close> issues \<^verbatim>\<open>storage.getMetadata(claimUri)\<close> when it is called and
  wraps a rejection when the call settles; \<open>getHypercertMetadata\<close> is the settling half.
\<close>

definition getHypercertMetadata :: "Remote \<Rightarrow> string \<Rightarrow> error + HypercertMetadata" where
  "getHypercertMetadata w claimUri =
     (case getMetadata w claimUri of
        Inr metadata \<Rightarrow> Inr metadata
      | Inl e \<Rightarrow>
          Inl (Error (''[Hypercerts] Failed to fetch metadata of '' @ claimUri
                       @ '': '' @ toString e)))"

subsection \<open>The per-claim merge\<close>

text \<open>\<^verbatim>\<open>metadata.properties?.[0].value\<close>: only the absence of the list is guarded.\<close>

definition properties_0_value :: "HypercertMetadata \<Rightarrow> error + string option" where
  "properties_0_value metadata =
     (case properties metadata of
        None \<Rightarrow> Inr None
      | Some [] \<Rightarrow> Inl (TypeError ''Cannot read properties of undefined (reading 'value')'')
      | Some (p # _) \<Rightarrow> Inr (value p))"

text \<open>\<^verbatim>\<open>metadata.hypercert?.work_scope.value?.[0]\<close>\<close>

definition work_scope_value_0 :: "HypercertMetadata \<Rightarrow> string option" where
  "work_scope_value_0 metadata =
     (case hypercert metadata of
        None \<Rightarrow> None
      | Some h \<Rightarrow>
          (case work_scope_value h of None \<Rightarrow> None | Some [] \<Rightarrow> None | Some (x # _) \<Rightarrow> Some x))"

definition buildReport ::
  "Claim \<Rightarrow> HypercertMetadata \<Rightarrow> CMSReport \<Rightarrow> string option \<Rightarrow> number \<Rightarrow> Report" where
  "buildReport claim metadata cmsReport st funded =
     \<lparr>hypercertId = claim_id claim,
      title = name metadata,
      summary = description metadata,
      image = md_image metadata,
      originalReportUrl = external_url metadata,
      state = st,
      category = work_scope_value_0 metadata,
      workTimeframe = Option.bind (hypercert metadata) work_timeframe_display_value,
      impactScope = Option.bind (hypercert metadata) impact_scope_display_value,
      impactTimeframe = Option.bind (hypercert metadata) impact_timeframe_display_value,
      contributors =
        Option.bind (hypercert metadata) (\<lambda>h. map_option (map (\<lambda>name. name)) (contributors_value h)),
      cmsId = cms_id cmsReport,
      status = cms_status cmsReport,
      dateCreated = date_created cmsReport,
      slug = cms_slug cmsReport,
      story = cms_story cmsReport,
      bcRatio = bc_ratio cmsReport,
      villagesImpacted = villages_impacted cmsReport,
      peopleImpacted = people_impacted cmsReport,
      verifiedBy = verified_by cmsReport,
      dateUpdated = date_updated cmsReport,
      byline = cms_byline cmsReport,
      totalCost = Number (total_cost cmsReport),
      fundedSoFar = funded\<rparr>"

definition cms_content_not_found :: "string \<Rightarrow> error" where
  "cms_content_not_found nm =
     Error (''[server] CMS content for report titled '' @ quoted nm @ '' not found.'')"

text \<open>
  The callback of \<^verbatim>\<open>claims.map\<close>, read from top to bottom as if nothing else ran
  between its awaits.
\<close>

definition callback :: "Remote \<Rightarrow> Claim \<Rightarrow> error + Report" where
  "callback w claim =
     (case getHypercertMetadata w (uri claim) of
        Inl e \<Rightarrow> Inl e
      | Inr metadata \<Rightarrow>
          (case getCMSReports w of
             Inl e \<Rightarrow> Inl e
           | Inr fromCMS \<Rightarrow>
               (case find (\<lambda>cmsReport. cms_title cmsReport = name metadata) fromCMS of
                  None \<Rightarrow> Inl (cms_content_not_found (name metadata))
                | Some cmsReport \<Rightarrow>
                    (case properties_0_value metadata of
                       Inl e \<Rightarrow> Inl e
                     | Inr st \<Rightarrow>
                         (case getFundedAmountByHCId w (claim_id claim) of
                            Inl e \<Rightarrow> Inl e
                          | Inr funded \<Rightarrow>
                              Inr (buildReport claim metadata cmsReport st funded))))))"

text \<open>
  The callback is an async function with three awaits, and the callbacks of different
  claims interleave at them. A \<open>task\<close> is the callback suspended at one of them, or
  finished with its report.
\<close>

datatype task =
  AwaitMetadata Claim
| AwaitCMS Claim HypercertMetadata
| AwaitFunding Claim HypercertMetadata CMSReport "string option"
| Fulfilled Report

text \<open>
  \<open>resume w t\<close> runs the callback from the await it is suspended at to its next await,
  its \<^verbatim>\<open>return\<close> or its \<^verbatim>\<open>throw\<close>, and lists the remote call it issues on the way. The
  object literal is evaluated in source order: the state field before the funding
  lookup.
\<close>

fun resume :: "Remote \<Rightarrow> task \<Rightarrow> (error + task) \<times> call list" where
  "resume w (AwaitMetadata claim) =
     (case getHypercertMetadata w (uri claim) of
        Inl e \<Rightarrow> (Inl e, [])
      | Inr metadata \<Rightarrow> (Inr (AwaitCMS claim metadata), [GetCMSReports]))"
| "resume w (AwaitCMS claim metadata) =
     (case getCMSReports w of
        Inl e \<Rightarrow> (Inl e, [])
      | Inr fromCMS \<Rightarrow>
          (case find (\<lambda>cmsReport. cms_title cmsReport = name metadata) fromCMS of
             None \<Rightarrow>
               (Inl (cms_content_not_found (name metadata)), [])
           | Some cmsReport \<Rightarrow>
               (case properties_0_value metadata of
                  Inl e \<Rightarrow> (Inl e, [])
                | Inr st \<Rightarrow>
                    (Inr (AwaitFunding claim metadata cmsReport st),
                     [GetFundedAmountByHCId (claim_id claim)]))))"
| "resume w (AwaitFunding claim metadata cmsReport st) =
     (case getFundedAmountByHCId w (claim_id claim) of
        Inl e \<Rightarrow> (Inl e, [])
      | Inr funded \<Rightarrow> (Inr (Fulfilled (buildReport claim metadata cmsReport st funded)), []))"
| "resume w (Fulfilled r) = (Inr (Fulfilled r), [])"

subsection \<open>\<^verbatim>\<open>Promise.all\<close> over the callbacks\<close>

fun stage :: "task \<Rightarrow> nat" where
  "stage (AwaitMetadata _) = 3"
| "stage (AwaitCMS _ _) = 2"
| "stage (AwaitFunding _ _ _ _) = 1"
| "stage (Fulfilled _) = 0"

definition pending :: "task list \<Rightarrow> nat list" where
  "pending ts = filter (\<lambda>i. stage (ts ! i) \<noteq> 0) [0..<length ts]"

text \<open>
  The schedule says which suspended callback is resumed next: its head, taken modulo
  the number of suspended callbacks, indexes them; an exhausted schedule resumes the
  first one. Every completion order of the lookups is some schedule.
\<close>

definition pick :: "nat list \<Rightarrow> nat list \<Rightarrow> nat" where
  "pick sch ps = (case sch of [] \<Rightarrow> hd ps | n # _ \<Rightarrow> ps ! (n mod length ps))"

fun fulfilled :: "task list \<Rightarrow> Report list" where
  "fulfilled [] = []"
| "fulfilled (Fulfilled r # ts) = r # fulfilled ts"
| "fulfilled (_ # ts) = fulfilled ts"

lemma pick_in: "ps \<noteq> [] \<Longrightarrow> pick sch ps \<in> set ps"
  by (cases sch) (simp_all add: pick_def)

lemma pick_pending:
  assumes "pending ts \<noteq> []"
  shows "pick sch (pending ts) < length ts \<and> stage (ts ! pick sch (pending ts)) \<noteq> 0"
  using pick_in [OF assms, of sch] by (simp add: pending_def)

lemma stage_resume: "stage t \<noteq> 0 \<Longrightarrow> fst (resume w t) = Inr t' \<Longrightarrow> stage t' < stage t"
  by (cases t) (auto split: sum.splits option.splits)

lemma sum_stage_update:
  "i < length ts \<Longrightarrow> stage t' < stage (ts ! i) \<Longrightarrow>
   sum_list (map stage (ts[i := t'])) < sum_list (map stage ts)"
proof (induction ts arbitrary: i)
  case Nil
  then show ?case by simp
next
  case (Cons t ts)
  then show ?case by (cases i) auto
qed

text \<open>
  \<^verbatim>\<open>Promise.all\<close> rejects with the first rejection in time and fulfils, once every
  callback has returned, with the results by position. A callback still suspended when
  another one throws runs on in the source, with its result dropped; the model stops
  there, and the log holds the calls issued up to the rejection.
\<close>

function Promise_all ::
  "Remote \<Rightarrow> nat list \<Rightarrow> task list \<Rightarrow> call list \<Rightarrow> (error + Report list) \<times> call list" where
  "Promise_all w sch ts log =
     (if pending ts = [] then (Inr (fulfilled ts), log)
      else
        (case fst (resume w (ts ! pick sch (pending ts))) of
           Inl e \<Rightarrow> (Inl e, log @ snd (resume w (ts ! pick sch (pending ts))))
         | Inr t' \<Rightarrow>
             Promise_all w (tl sch) (ts[pick sch (pending ts) := t'])
               (log @ snd (resume w (ts ! pick sch (pending ts))))))"
  by pat_completeness auto
termination
proof (relation "measure (\<lambda>(w, sch, ts, log). sum_list (map stage ts))", goal_cases)
  case 1
  then show ?case by simp
next
  case (2 w sch ts log t')
  then show ?case
    using pick_pending [of ts sch] stage_resume sum_stage_update by auto
qed

declare Promise_all.simps [simp del]

text \<open>One callback run alone from a suspension point to its end.\<close>

function finish :: "Remote \<Rightarrow> task \<Rightarrow> error + Report" where
  "finish w t =
     (case t of
        Fulfilled r \<Rightarrow> Inr r
      | _ \<Rightarrow> (case fst (resume w t) of Inl e \<Rightarrow> Inl e | Inr t' \<Rightarrow> finish w t'))"
  by pat_completeness auto
termination
  by (relation "measure (\<lambda>(w, t). stage t)") (auto split: sum.splits option.splits)

declare finish.simps [simp del]

subsection \<open>The exported functions\<close>

definition failed_to_fetch_reports :: "error \<Rightarrow> error" where
  "failed_to_fetch_reports e = Error (''[server] Failed to fetch reports: '' @ toString e)"

text \<open>
  \<open>HC_OWNER_ADDRESS\<close> is \<^verbatim>\<open>process.env.HC_OWNER_ADDRESS\<close>, which the module reads and never
  writes; \<^verbatim>\<open>!process.env.HC_OWNER_ADDRESS\<close> holds of the undefined and of the empty string.
\<close>

definition configured :: "string option \<Rightarrow> bool" where
  "configured env = (env \<noteq> None \<and> env \<noteq> Some [])"

definition fetchReports ::
  "string option \<Rightarrow> Remote \<Rightarrow> nat list \<Rightarrow> store \<Rightarrow> (error + Report list) \<times> store" where
  "fetchReports HC_OWNER_ADDRESS w sch s =
     (if HC_OWNER_ADDRESS = None \<or> HC_OWNER_ADDRESS = Some [] then
        (Inl (Error ''[server] Owner address environment variable is not set''), s)
      else
        let ownerAddress = the HC_OWNER_ADDRESS in
        (case reports s of
           Some rs \<Rightarrow> (Inr rs, s)
         | None \<Rightarrow>
             (case getHypercertClaims w ownerAddress (snd (getHypercertClient s)) of
                (Inl e, s1) \<Rightarrow> (Inl (failed_to_fetch_reports e), s1)
              | (Inr claims, s1) \<Rightarrow>
                  (case Promise_all w sch (map AwaitMetadata claims)
                          (calls s1 @ map (\<lambda>claim. GetMetadata (uri claim)) claims) of
                     (Inl e, log) \<Rightarrow> (Inl (failed_to_fetch_reports e), s1\<lparr>calls := log\<rparr>)
                   | (Inr rs, log) \<Rightarrow> (Inr rs, s1\<lparr>reports := Some rs, calls := log\<rparr>)))))"

definition fetchReportBySlug ::
  "string option \<Rightarrow> Remote \<Rightarrow> nat list \<Rightarrow> string \<Rightarrow> store \<Rightarrow> (error + Report) \<times> store" where
  "fetchReportBySlug HC_OWNER_ADDRESS w sch sl s =
     (let failed = (\<lambda>e. Error (''[server] Failed to get report by slug '' @ sl @ '': ''
                               @ toString e)) in
      case fetchReports HC_OWNER_ADDRESS w sch s of
        (Inl e, s') \<Rightarrow> (Inl (failed e), s')
      | (Inr rs, s') \<Rightarrow>
          (case find (\<lambda>report. slug report = sl) rs of
             None \<Rightarrow>
               (Inl (failed (Error (''[server] Report with slug '' @ quoted sl @ '' not found.''))),
                s')
           | Some foundReport \<Rightarrow> (Inr foundReport, s')))"

text \<open>What \<open>fetchReportBySlug\<close> throws when the list holds no report of the slug.\<close>

definition report_not_found :: "string \<Rightarrow> error" where
  "report_not_found sl =
     Error (''[server] Failed to get report by slug '' @ sl
            @ '': Error: [server] Report with slug '' @ quoted sl @ '' not found.'')"

definition fetchReportByHCId ::
  "string option \<Rightarrow> Remote \<Rightarrow> nat list \<Rightarrow> string \<Rightarrow> store \<Rightarrow> (error + Report) \<times> store" where
  "fetchReportByHCId HC_OWNER_ADDRESS w sch hcId s =
     (let failed = (\<lambda>e. Error (''[server] Failed to get report with hypercert Id '' @ quoted hcId
                               @ '': '' @ toString e)) in
      case fetchReports HC_OWNER_ADDRESS w sch s of
        (Inl e, s') \<Rightarrow> (Inl (failed e), s')
      | (Inr rs, s') \<Rightarrow>
          (case find (\<lambda>report. hypercertId report = hcId) rs of
             None \<Rightarrow>
               (Inl (failed (Error (''[server] Report with hypercert Id '' @ quoted hcId
                                     @ '' not found.''))), s')
           | Some foundReport \<Rightarrow> (Inr foundReport, s')))"

definition getReports :: "store \<Rightarrow> Report list" where
  "getReports s = (case reports s of Some rs \<Rightarrow> rs | None \<Rightarrow> [])"

text \<open>
  \<^verbatim>\<open>reports.find(...)\<close> yields the first matching object of the cached array, and the
  assignment to its field changes the array at that position.
\<close>

fun mutate_first :: "('a \<Rightarrow> bool) \<Rightarrow> ('a \<Rightarrow> 'a) \<Rightarrow> 'a list \<Rightarrow> 'a list" where
  "mutate_first P f [] = []"
| "mutate_first P f (x # xs) = (if P x then f x # xs else x # mutate_first P f xs)"

text \<open>
  \<^verbatim>\<open>reportsMutex.acquire()\<close> settles once the mutex is free: on a held mutex the call
  does not return (\<open>None\<close>). The \<^verbatim>\<open>finally\<close> releases it.
\<close>

definition updateFundedAmount :: "string \<Rightarrow> number \<Rightarrow> store \<Rightarrow> store option" where
  "updateFundedAmount hcId amount s =
     (if reportsMutex_locked s then None
      else
        let s1 = s\<lparr>reportsMutex_locked := True\<rparr>;
            s2 = (case find (\<lambda>r. hypercertId r = hcId) (getReports s1) of
                    None \<Rightarrow> s1
                  | Some report \<Rightarrow>
                      s1\<lparr>reports :=
                           Some (mutate_first (\<lambda>r. hypercertId r = hcId)
                                   (\<lambda>r. r\<lparr>fundedSoFar := add (fundedSoFar r) amount\<rparr>)
                                   (getReports s1))\<rparr>)
        in Some (s2\<lparr>reportsMutex_locked := False\<rparr>))"

subsection \<open>Process states\<close>

text \<open>
  The states a process can be in: the module's initial state, and what the exported
  functions make of it, under the one environment of the process and against any
  collaborators and completion orders.
\<close>

inductive reachable :: "string option \<Rightarrow> store \<Rightarrow> bool" for env :: "string option" where
  init: "reachable env initial"
| fetchReports: "reachable env s \<Longrightarrow> reachable env (snd (fetchReports env w sch s))"
| fetchReportBySlug: "reachable env s \<Longrightarrow> reachable env (snd (fetchReportBySlug env w sch sl s))"
| fetchReportByHCId: "reachable env s \<Longrightarrow> reachable env (snd (fetchReportByHCId env w sch hcId s))"
| updateFundedAmount:
    "reachable env s \<Longrightarrow> updateFundedAmount hcId amount s = Some s' \<Longrightarrow> reachable env s'"

text \<open>The same, as long as no call of \<open>fetchReports\<close>, direct or through a lookup, succeeded.\<close>

inductive never_fetched :: "string option \<Rightarrow> store \<Rightarrow> bool" for env :: "string option" where
  init: "never_fetched env initial"
| fetchReports:
    "never_fetched env s \<Longrightarrow> fetchReports env w sch s = (Inl e, s') \<Longrightarrow> never_fetched env s'"
| fetchReportBySlug:
    "never_fetched env s \<Longrightarrow> fetchReports env w sch s = (Inl e, s') \<Longrightarrow>
     never_fetched env (snd (fetchReportBySlug env w sch sl s))"
| fetchReportByHCId:
    "never_fetched env s \<Longrightarrow> fetchReports env w sch s = (Inl e, s') \<Longrightarrow>
     never_fetched env (snd (fetchReportByHCId env w sch hcId s))"
| updateFundedAmount:
    "never_fetched env s \<Longrightarrow> updateFundedAmount hcId amount s = Some s' \<Longrightarrow> never_fetched env s'"

subsection \<open>A concrete process\<close>

text \<open>
  One claim, its metadata, its editorial record and a funded amount, and the store that
  the first \<open>fetchReports\<close> makes of them.
\<close>

definition example_claim :: Claim where
  "example_claim = \<lparr>claim_id = ''X'', uri = ''ipfs://foo''\<rparr>"

definition example_metadata :: HypercertMetadata where
  "example_metadata =
     \<lparr>name = ''Foo'', description = ''A report'', md_image = ''foo.png'', external_url = None,
      properties = Some [\<lparr>trait_type = Some ''State'', value = Some ''Kerala''\<rparr>],
      hypercert = None\<rparr>"

definition example_cms :: CMSReport where
  "example_cms =
     \<lparr>cms_id = ''1'', cms_title = ''Foo'', cms_status = ''published'',
      date_created = ''2024-01-01'', cms_slug = ''foo-1'', cms_story = ''Once'',
      bc_ratio = Num 2, villages_impacted = Num 3, people_impacted = Num 40,
      verified_by = ''V'', date_updated = ''2024-01-02'', cms_byline = ''B'',
      total_cost = ''100''\<rparr>"

definition example_remote :: Remote where
  "example_remote =
     \<lparr>claimsByOwner = (\<lambda>ownerAddress. Inr [example_claim]),
      getMetadata = (\<lambda>claimUri. Inr example_metadata),
      getCMSReports = Inr [example_cms],
      getFundedAmountByHCId = (\<lambda>hcId. Inr (Num 50))\<rparr>"

definition example_report :: Report where
  "example_report = buildReport example_claim example_metadata example_cms (Some ''Kerala'') (Num 50)"

definition example_store :: store where
  "example_store =
     \<lparr>reports = Some [example_report],
      hypercertClient = Some (HypercertClient 11155111),
      reportsMutex_locked = False,
      calls = [ClaimsByOwner ''0xA'', GetMetadata ''ipfs://foo'', GetCMSReports,
               GetFundedAmountByHCId ''X'']\<rparr>"

text \<open>
  A second claim with its metadata and editorial record, and collaborators that
  differ from these in one answer: an editorial list without the second record, a
  metadata storage that rejects the first pointer, metadata with an empty properties
  list, and metadata whose first property has no value.
\<close>

definition second_claim :: Claim where
  "second_claim = \<lparr>claim_id = ''Y'', uri = ''ipfs://bar''\<rparr>"

definition second_metadata :: HypercertMetadata where
  "second_metadata =
     \<lparr>name = ''Bar'', description = ''Another report'', md_image = ''bar.png'',
      external_url = Some ''https://example.org/bar'', properties = None, hypercert = None\<rparr>"

definition second_cms :: CMSReport where
  "second_cms =
     \<lparr>cms_id = ''2'', cms_title = ''Bar'', cms_status = ''published'',
      date_created = ''2024-02-01'', cms_slug = ''bar-2'', cms_story = ''Twice'',
      bc_ratio = Num 1, villages_impacted = Num 5, people_impacted = Num 60,
      verified_by = ''V'', date_updated = ''2024-02-02'', cms_byline = ''B'',
      total_cost = ''250''\<rparr>"

definition pair_remote :: Remote where
  "pair_remote =
     \<lparr>claimsByOwner = (\<lambda>ownerAddress. Inr [example_claim, second_claim]),
      getMetadata = (\<lambda>claimUri. if claimUri = ''ipfs://bar'' then Inr second_metadata
                                 else Inr example_metadata),
      getCMSReports = Inr [example_cms, second_cms],
      getFundedAmountByHCId = (\<lambda>hcId. if hcId = ''Y'' then Inr (Num 7) else Inr (Num 50))\<rparr>"

definition second_report :: Report where
  "second_report = buildReport second_claim second_metadata second_cms None (Num 7)"

definition mismatch_remote :: Remote where
  "mismatch_remote = pair_remote\<lparr>getCMSReports := Inr [example_cms]\<rparr>"

definition timeout_remote :: Remote where
  "timeout_remote =
     mismatch_remote\<lparr>getMetadata :=
       (\<lambda>claimUri. if claimUri = ''ipfs://bar'' then Inr second_metadata
                   else Inl (Rejected ''gateway timeout''))\<rparr>"

definition empty_properties_remote :: Remote where
  "empty_properties_remote =
     example_remote\<lparr>getMetadata := (\<lambda>claimUri. Inr (example_metadata\<lparr>properties := Some []\<rparr>))\<rparr>"

definition valueless_metadata :: HypercertMetadata where
  "valueless_metadata =
     example_metadata\<lparr>properties := Some [\<lparr>trait_type = Some ''State'', value = None\<rparr>]\<rparr>"

definition valueless_remote :: Remote where
  "valueless_remote = example_remote\<lparr>getMetadata := (\<lambda>claimUri. Inr valueless_metadata)\<rparr>"

section \<open>The callbacks under every completion order\<close>

lemma finish_Fulfilled: "finish w (Fulfilled r) = Inr r"
  by (simp add: finish.simps)

lemma finish_unfold:
  "stage t \<noteq> 0 \<Longrightarrow>
   finish w t = (case fst (resume w t) of Inl e \<Rightarrow> Inl e | Inr t' \<Rightarrow> finish w t')"
  by (subst finish.simps) (cases t; simp del: resume.simps)

lemma finish_resume_Inr:
  "stage t \<noteq> 0 \<Longrightarrow> fst (resume w t) = Inr t' \<Longrightarrow> finish w t = finish w t'"
  by (simp add: finish_unfold)

lemma finish_resume_Inl:
  "stage t \<noteq> 0 \<Longrightarrow> fst (resume w t) = Inl e \<Longrightarrow> finish w t = Inl e"
  by (simp add: finish_unfold)

lemma stage_0: "stage t = 0 \<Longrightarrow> \<exists>r. t = Fulfilled r"
  by (cases t) simp_all

lemma pending_Nil: "pending ts = [] \<longleftrightarrow> (\<forall>t \<in> set ts. stage t = 0)"
  by (auto simp: pending_def filter_empty_conv all_set_conv_all_nth)

lemma fulfilled_finish:
  "\<forall>t \<in> set ts. stage t = 0 \<Longrightarrow> map (finish w) ts = map Inr (fulfilled ts)"
proof (induction ts)
  case Nil
  then show ?case by simp
next
  case (Cons t ts)
  then obtain r where "t = Fulfilled r" using stage_0 by auto
  with Cons show ?case by (simp add: finish_Fulfilled)
qed

lemma map_finish_update:
  "i < length ts \<Longrightarrow> finish w t' = finish w (ts ! i) \<Longrightarrow>
   map (finish w) (ts[i := t']) = map (finish w) ts"
  by (simp add: map_update list_update_same_conv)

lemma Promise_all_Inr:
  "Promise_all w sch ts log = (Inr rs, log') \<Longrightarrow> map (finish w) ts = map Inr rs"
proof (induction w sch ts log rule: Promise_all.induct)
  case (1 w sch ts log)
  show ?case
  proof (cases "pending ts = []")
    case True
    with "1.prems" have "rs = fulfilled ts" by (simp add: Promise_all.simps [of w sch ts])
    with True show ?thesis by (simp add: pending_Nil fulfilled_finish)
  next
    case False
    let ?i = "pick sch (pending ts)"
    from False have i: "?i < length ts" "stage (ts ! ?i) \<noteq> 0"
      using pick_pending by auto
    from False "1.prems" obtain t' where t': "fst (resume w (ts ! ?i)) = Inr t'"
      and run: "Promise_all w (tl sch) (ts[?i := t']) (log @ snd (resume w (ts ! ?i))) = (Inr rs, log')"
      by (auto simp: Promise_all.simps [of w sch ts] split: sum.splits)
    from "1.IH" [OF False t' run] have "map (finish w) (ts[?i := t']) = map Inr rs" .
    moreover have "finish w t' = finish w (ts ! ?i)"
      using finish_resume_Inr [OF i(2) t'] by simp
    ultimately show ?thesis using map_finish_update [OF i(1)] by simp
  qed
qed

lemma Promise_all_Inl:
  "Promise_all w sch ts log = (Inl e, log') \<Longrightarrow> \<exists>t \<in> set ts. finish w t = Inl e"
proof (induction w sch ts log rule: Promise_all.induct)
  case (1 w sch ts log)
  show ?case
  proof (cases "pending ts = []")
    case True
    with "1.prems" show ?thesis by (simp add: Promise_all.simps [of w sch ts])
  next
    case False
    let ?i = "pick sch (pending ts)"
    from False have i: "?i < length ts" "stage (ts ! ?i) \<noteq> 0"
      using pick_pending by auto
    show ?thesis
    proof (cases "fst (resume w (ts ! ?i))")
      case (Inl e')
      with False "1.prems" have "e' = e" by (simp add: Promise_all.simps [of w sch ts])
      with Inl have "finish w (ts ! ?i) = Inl e" using finish_resume_Inl [OF i(2)] by simp
      with i(1) show ?thesis using nth_mem by blast
    next
      case (Inr t')
      with False "1.prems"
      have run: "Promise_all w (tl sch) (ts[?i := t']) (log @ snd (resume w (ts ! ?i))) = (Inl e, log')"
        by (simp add: Promise_all.simps [of w sch ts])
      from "1.IH" [OF False Inr run] obtain t where t: "t \<in> set (ts[?i := t'])" "finish w t = Inl e"
        by blast
      have eq: "finish w t' = finish w (ts ! ?i)"
        using finish_resume_Inr [OF i(2) Inr] by simp
      from t(1) have "t = t' \<or> t \<in> set ts"
        using set_update_subset_insert by fastforce
      then show ?thesis
      proof
        assume "t = t'"
        with t(2) eq have "finish w (ts ! ?i) = Inl e" by simp
        with i(1) show ?thesis using nth_mem by blast
      next
        assume "t \<in> set ts"
        with t(2) show ?thesis by blast
      qed
    qed
  qed
qed

lemma Promise_all_log:
  "\<exists>cs. snd (Promise_all w sch ts log) = log @ cs"
proof (induction w sch ts log rule: Promise_all.induct)
  case (1 w sch ts log)
  show ?case
  proof (cases "pending ts = []")
    case True
    then show ?thesis by (simp add: Promise_all.simps [of w sch ts])
  next
    case False
    show ?thesis
    proof (cases "fst (resume w (ts ! pick sch (pending ts)))")
      case (Inl e)
      with False show ?thesis by (simp add: Promise_all.simps [of w sch ts])
    next
      case (Inr t')
      from "1.IH" [OF False Inr] Inr False show ?thesis
        by (auto simp: Promise_all.simps [of w sch ts])
    qed
  qed
qed

lemma finish_AwaitMetadata: "finish w (AwaitMetadata claim) = callback w claim"
  by (simp add: finish_unfold finish_Fulfilled callback_def split: sum.splits option.splits)

lemma Promise_all_fulfils:
  assumes "Promise_all w sch (map AwaitMetadata claims) log = (Inr rs, log')"
  shows "map (callback w) claims = map Inr rs"
  using Promise_all_Inr [OF assms] by (simp add: finish_AwaitMetadata comp_def)

lemma Promise_all_rejects:
  assumes "Promise_all w sch (map AwaitMetadata claims) log = (Inl e, log')"
  shows "\<exists>claim \<in> set claims. callback w claim = Inl e"
  using Promise_all_Inl [OF assms] by (auto simp: finish_AwaitMetadata)

lemma fetchReports_not_configured:
  "\<not> configured env \<Longrightarrow>
   fetchReports env w sch s =
     (Inl (Error ''[server] Owner address environment variable is not set''), s)"
  by (auto simp: fetchReports_def configured_def)

lemma fetchReports_hit:
  "configured env \<Longrightarrow> reports s = Some rs \<Longrightarrow> fetchReports env w sch s = (Inr rs, s)"
  by (simp add: fetchReports_def configured_def)

lemma getHypercertClaims_store:
  "snd (getHypercertClaims w a s) = s\<lparr>calls := calls s @ [ClaimsByOwner a]\<rparr>"
  by (simp add: getHypercertClaims_def Let_def split: sum.splits)

lemma getHypercertClaims_result:
  "fst (getHypercertClaims w a s) =
     (case claimsByOwner w a of
        Inr claims \<Rightarrow> Inr claims
      | Inl e \<Rightarrow> Inl (Error (''[Hypercerts] Failed to fetch claims owned by '' @ a @ '': '' @ toString e)))"
  by (simp add: getHypercertClaims_def Let_def split: sum.splits)

lemma getHypercertClient_store:
  "reports (snd (getHypercertClient s)) = reports s"
  "calls (snd (getHypercertClient s)) = calls s"
  "reportsMutex_locked (snd (getHypercertClient s)) = reportsMutex_locked s"
  by (simp_all add: getHypercertClient_def split: option.splits)

section \<open>The cache\<close>

text \<open>The population path of \<open>fetchReports\<close>, in one equation.\<close>

lemma fetchReports_miss:
  assumes "env = Some a" "a \<noteq> []" "reports s = None"
  shows "fetchReports env w sch s =
     (let s1 = (snd (getHypercertClient s))\<lparr>calls := calls s @ [ClaimsByOwner a]\<rparr> in
      case fst (getHypercertClaims w a (snd (getHypercertClient s))) of
        Inl e \<Rightarrow> (Inl (failed_to_fetch_reports e), s1)
      | Inr claims \<Rightarrow>
          (case Promise_all w sch (map AwaitMetadata claims)
                  (calls s1 @ map (\<lambda>claim. GetMetadata (uri claim)) claims) of
             (Inl e, log) \<Rightarrow> (Inl (failed_to_fetch_reports e), s1\<lparr>calls := log\<rparr>)
           | (Inr rs, log) \<Rightarrow> (Inr rs, s1\<lparr>reports := Some rs, calls := log\<rparr>)))"
proof -
  obtain r s1 where g: "getHypercertClaims w a (snd (getHypercertClient s)) = (r, s1)"
    by (cases "getHypercertClaims w a (snd (getHypercertClient s))")
  from g have s1: "s1 = (snd (getHypercertClient s))\<lparr>calls := calls s @ [ClaimsByOwner a]\<rparr>"
    using getHypercertClaims_store [of w a "snd (getHypercertClient s)"]
    by (simp add: getHypercertClient_store)
  from g have r: "fst (getHypercertClaims w a (snd (getHypercertClient s))) = r" by simp
  show ?thesis
    unfolding r using assms g s1
    by (simp add: fetchReports_def Let_def split: sum.splits prod.splits)
qed

lemma fetchReports_Inr:
  assumes "fetchReports env w sch s = (Inr rs, s')"
  shows "configured env \<and> reports s' = Some rs"
proof (cases "configured env")
  case False
  with assms show ?thesis by (simp add: fetchReports_not_configured)
next
  case True
  then obtain a where a: "env = Some a" "a \<noteq> []" by (auto simp: configured_def)
  show ?thesis
  proof (cases "reports s")
    case (Some rs')
    with True assms show ?thesis by (auto simp: fetchReports_hit)
  next
    case None
    from assms show ?thesis
      unfolding fetchReports_miss [OF a None]
      by (auto simp: Let_def True split: sum.splits prod.splits)
  qed
qed

lemma fetchReports_Inl:
  assumes "fetchReports env w sch s = (Inl e, s')"
  shows "reports s' = reports s \<and> reportsMutex_locked s' = reportsMutex_locked s"
proof (cases "configured env")
  case False
  with assms show ?thesis by (simp add: fetchReports_not_configured)
next
  case True
  then obtain a where a: "env = Some a" "a \<noteq> []" by (auto simp: configured_def)
  show ?thesis
  proof (cases "reports s")
    case (Some rs')
    with True assms show ?thesis by (auto simp: fetchReports_hit)
  next
    case None
    from assms show ?thesis
      unfolding fetchReports_miss [OF a None]
      by (auto simp: Let_def None getHypercertClient_store split: sum.splits prod.splits)
  qed
qed

lemma fetchReports_locked:
  "reportsMutex_locked (snd (fetchReports env w sch s)) = reportsMutex_locked s"
proof (cases "configured env")
  case False
  then show ?thesis by (simp add: fetchReports_not_configured)
next
  case True
  then obtain a where a: "env = Some a" "a \<noteq> []" by (auto simp: configured_def)
  show ?thesis
  proof (cases "reports s")
    case (Some rs')
    with True show ?thesis by (auto simp: fetchReports_hit)
  next
    case None
    show ?thesis
      unfolding fetchReports_miss [OF a None]
      by (auto simp: Let_def getHypercertClient_store split: sum.splits prod.splits)
  qed
qed

lemma fetchReportBySlug_store:
  "snd (fetchReportBySlug env w sch sl s) = snd (fetchReports env w sch s)"
  by (simp add: fetchReportBySlug_def Let_def split: prod.splits sum.splits option.splits)

lemma fetchReportByHCId_store:
  "snd (fetchReportByHCId env w sch hcId s) = snd (fetchReports env w sch s)"
  by (simp add: fetchReportByHCId_def Let_def split: prod.splits sum.splits option.splits)

lemma fetchReports_populated:
  "reports (snd (fetchReports env w sch s)) \<noteq> None \<Longrightarrow> reports s = None \<Longrightarrow> configured env"
  by (cases "configured env") (simp_all add: fetchReports_not_configured)

lemma fetchReports_keeps:
  "reports s = Some rs \<Longrightarrow> reports (snd (fetchReports env w sch s)) = Some rs"
  by (cases "configured env") (simp_all add: fetchReports_not_configured fetchReports_hit)

lemma updateFundedAmount_None:
  "updateFundedAmount hcId amount s = Some s' \<Longrightarrow>
   (reports s' = None \<longleftrightarrow> reports s = None) \<and> \<not> reportsMutex_locked s'"
  by (auto simp: updateFundedAmount_def Let_def getReports_def split: if_splits option.splits)

lemma reachable_inv:
  "reachable env s \<Longrightarrow> (reports s \<noteq> None \<longrightarrow> configured env) \<and> \<not> reportsMutex_locked s"
proof (induction rule: reachable.induct)
  case init
  then show ?case by (simp add: initial_def)
next
  case (fetchReports s w sch)
  then show ?case
    using fetchReports_populated [of env w sch s] by (auto simp: fetchReports_locked)
next
  case (fetchReportBySlug s w sch sl)
  then show ?case
    using fetchReports_populated [of env w sch s]
    by (auto simp: fetchReports_locked fetchReportBySlug_store)
next
  case (fetchReportByHCId s w sch hcId)
  then show ?case
    using fetchReports_populated [of env w sch s]
    by (auto simp: fetchReports_locked fetchReportByHCId_store)
next
  case (updateFundedAmount s hcId amount s')
  then show ?case using updateFundedAmount_None [of hcId amount s s'] by auto
qed

lemma never_fetched_unpopulated: "never_fetched env s \<Longrightarrow> reports s = None"
proof (induction rule: never_fetched.induct)
  case init
  then show ?case by (simp add: initial_def)
next
  case (fetchReports s w sch e s')
  then show ?case using fetchReports_Inl by fastforce
next
  case (fetchReportBySlug s w sch e s' sl)
  then show ?case using fetchReports_Inl by (fastforce simp: fetchReportBySlug_store)
next
  case (fetchReportByHCId s w sch e s' hcId)
  then show ?case using fetchReports_Inl by (fastforce simp: fetchReportByHCId_store)
next
  case (updateFundedAmount s hcId amount s')
  then show ?case using updateFundedAmount_None [of hcId amount s s'] by auto
qed

lemma find_first:
  "find P xs = Some x \<Longrightarrow>
   \<exists>i<length xs. xs ! i = x \<and> P x \<and> mutate_first P f xs = xs[i := f x]"
proof (induction xs)
  case Nil
  then show ?case by simp
next
  case (Cons y ys)
  show ?case
  proof (cases "P y")
    case True
    with Cons.prems have "y = x" by simp
    with True show ?thesis by (intro exI [of _ 0]) simp
  next
    case False
    with Cons.prems have "find P ys = Some x" by simp
    from Cons.IH [OF this] obtain i where
      "i < length ys" "ys ! i = x" "P x" "mutate_first P f ys = ys[i := f x]" by blast
    with False show ?thesis by (intro exI [of _ "Suc i"]) simp
  qed
qed

lemma find_distinct_key:
  "distinct (map g xs) \<Longrightarrow> x \<in> set xs \<Longrightarrow> find (\<lambda>y. g y = g x) xs = Some x"
proof (induction xs)
  case Nil
  then show ?case by simp
next
  case (Cons y ys)
  then show ?case by (cases "y = x") (auto simp: image_iff)
qed

lemma find_update_key:
  "find (\<lambda>y. g y = k) xs = Some x \<Longrightarrow> g x' = k \<Longrightarrow> i < length xs \<Longrightarrow> xs ! i = x \<Longrightarrow>
   distinct (map g xs) \<Longrightarrow> find (\<lambda>y. g y = k) (xs[i := x']) = Some x'"
proof (induction xs arbitrary: i)
  case Nil
  then show ?case by simp
next
  case (Cons y ys)
  show ?case
  proof (cases i)
    case 0
    with Cons.prems show ?thesis by simp
  next
    case (Suc j)
    with Cons.prems have j: "j < length ys" "ys ! j = x" by simp_all
    then have "x \<in> set ys" using nth_mem by blast
    with Cons.prems(5) have "g y \<noteq> g x" by (auto simp: image_iff)
    moreover from Cons.prems(1) have "g x = k"
      by (auto split: if_splits dest: find_Some_iff [THEN iffD1])
    ultimately have "g y \<noteq> k" by simp
    with Cons.prems Suc j show ?thesis using Cons.IH [of j] by simp
  qed
qed

lemma binary_digits_power: "binary_digits (2 ^ k) = Suc k"
proof (induction k)
  case 0
  then show ?case by (simp add: binary_digits.simps [of 1] binary_digits.simps [of 0])
next
  case (Suc k)
  then show ?case by (simp add: binary_digits.simps [of "2 * 2 ^ k"])
qed

lemma round_double_exact:
  assumes "\<bar>n\<bar> \<le> 2 ^ 53"
  shows "round_double n = Num n"
proof (cases "\<bar>n\<bar> < 2 ^ 53")
  case True
  then show ?thesis by (simp add: round_double_def Let_def)
next
  case False
  with assms have m: "\<bar>n\<bar> = 2 ^ 53" by simp
  have small: "\<not> (2::int) ^ 1024 \<le> 2 ^ 53" by simp
  have nz: "n < 0 \<Longrightarrow> n = - (2 ^ 53)" "\<not> n < 0 \<Longrightarrow> n = 2 ^ 53" using m by auto
  show ?thesis
    unfolding round_double_def m Let_def binary_digits_power
    using nz small by auto
qed

lemma add_exact: "\<bar>f + a\<bar> \<le> 2 ^ 53 \<Longrightarrow> add (Num f) (Num a) = Num (f + a)"
  by (simp add: round_double_exact)

text \<open>Above \<open>2 ^ 53\<close> the sum is rounded: \<open>2 ^ 53 + 1\<close> is \<open>2 ^ 53\<close>.\<close>

lemma add_rounds: "add (Num 9007199254740992) (Num 1) = Num 9007199254740992"
  by code_simp

lemma Number_rounds: "Number ''9007199254740993'' = Num 9007199254740992"
  by code_simp

lemma Number_100: "Number ''100'' = Num 100"
  by (simp add: digit_def decimal_def digit_value_def round_double_exact)

lemma fetchReports_error_shape:
  assumes "fetchReports env w sch s = (Inl e, s')"
  shows "e = Error ''[server] Owner address environment variable is not set'' \<or>
         (\<exists>e'. e = failed_to_fetch_reports e')"
proof (cases "configured env")
  case False
  with assms show ?thesis by (simp add: fetchReports_not_configured)
next
  case True
  then obtain a where a: "env = Some a" "a \<noteq> []" by (auto simp: configured_def)
  show ?thesis
  proof (cases "reports s")
    case (Some rs')
    with True assms show ?thesis by (simp add: fetchReports_hit)
  next
    case None
    from assms show ?thesis
      unfolding fetchReports_miss [OF a None]
      by (auto simp: Let_def split: sum.splits prod.splits)
  qed
qed

lemma fetchReportBySlug_fetch_failed:
  assumes "fetchReports env w sch s = (Inl e, s')"
  shows "fst (fetchReportBySlug env w sch sl s) \<noteq> Inl (report_not_found sl)"
  using fetchReports_error_shape [OF assms] assms
  by (auto simp: fetchReportBySlug_def report_not_found_def failed_to_fetch_reports_def Let_def)

lemma callback_Inr:
  assumes "callback w claim = Inr r"
  shows "\<exists>metadata fromCMS cmsReport st funded.
           getMetadata w (uri claim) = Inr metadata \<and> getCMSReports w = Inr fromCMS \<and>
           find (\<lambda>c. cms_title c = name metadata) fromCMS = Some cmsReport \<and>
           properties_0_value metadata = Inr st \<and>
           getFundedAmountByHCId w (claim_id claim) = Inr funded \<and>
           r = buildReport claim metadata cmsReport st funded"
  using assms
  by (auto simp: callback_def getHypercertMetadata_def split: sum.splits option.splits)

lemma callback_hypercertId: "callback w claim = Inr r \<Longrightarrow> hypercertId r = claim_id claim"
  by (auto dest!: callback_Inr simp: buildReport_def)

lemma map_Inr_nth:
  assumes "map f xs = map Inr ys"
  shows "length ys = length xs \<and> (\<forall>i<length xs. f (xs ! i) = Inr (ys ! i))"
proof -
  from assms have len: "length xs = length ys" using map_eq_imp_length_eq by blast
  have "\<forall>i<length xs. f (xs ! i) = Inr (ys ! i)"
  proof (intro allI impI)
    fix i assume i: "i < length xs"
    then have "f (xs ! i) = map f xs ! i" by simp
    also have "\<dots> = map Inr ys ! i" using assms by simp
    also have "\<dots> = Inr (ys ! i)" using i len by simp
    finally show "f (xs ! i) = Inr (ys ! i)" .
  qed
  with len show ?thesis by simp
qed

text \<open>What a population attempt returns, for the claims the indexer returned.\<close>

lemma fetchReports_population:
  assumes "env = Some a" "a \<noteq> []" "reports s = None" "claimsByOwner w a = Inr claims"
  shows "(\<exists>rs s'. fetchReports env w sch s = (Inr rs, s') \<and> map (callback w) claims = map Inr rs \<and>
            reports s' = Some rs) \<or>
         (\<exists>e s'. fetchReports env w sch s = (Inl (failed_to_fetch_reports e), s') \<and>
            (\<exists>c \<in> set claims. callback w c = Inl e) \<and> reports s' = None)"
proof -
  let ?s1 = "(snd (getHypercertClient s))\<lparr>calls := calls s @ [ClaimsByOwner a]\<rparr>"
  let ?run = "Promise_all w sch (map AwaitMetadata claims)
                (calls ?s1 @ map (\<lambda>claim. GetMetadata (uri claim)) claims)"
  have claims: "fst (getHypercertClaims w a (snd (getHypercertClient s))) = Inr claims"
    using assms(4) by (simp add: getHypercertClaims_result)
  obtain res log where run: "?run = (res, log)" by (cases ?run)
  show ?thesis
  proof (cases res)
    case (Inl e)
    with run have "\<exists>c \<in> set claims. callback w c = Inl e"
      using Promise_all_rejects by blast
    moreover have "fetchReports env w sch s = (Inl (failed_to_fetch_reports e), ?s1\<lparr>calls := log\<rparr>)"
      unfolding fetchReports_miss [OF assms(1-3)] using claims run Inl by (simp add: Let_def)
    moreover have "reports (?s1\<lparr>calls := log\<rparr>) = None"
      using assms(3) by (simp add: getHypercertClient_store)
    ultimately show ?thesis by blast
  next
    case (Inr rs)
    with run have "map (callback w) claims = map Inr rs"
      using Promise_all_fulfils by blast
    moreover have "fetchReports env w sch s = (Inr rs, ?s1\<lparr>reports := Some rs, calls := log\<rparr>)"
      unfolding fetchReports_miss [OF assms(1-3)] using claims run Inr by (simp add: Let_def)
    ultimately show ?thesis by auto
  qed
qed

lemma fetchReports_claims_failed:
  assumes "env = Some a" "a \<noteq> []" "reports s = None" "claimsByOwner w a = Inl e"
  shows "\<exists>e' s'. fetchReports env w sch s = (Inl e', s')"
  unfolding fetchReports_miss [OF assms(1-3)] using assms(4)
  by (simp add: getHypercertClaims_result Let_def)

lemma fetchReports_Inr_callbacks:
  assumes "fetchReports env w sch s = (Inr rs, s')" and "reports s = None"
  shows "\<exists>a claims. env = Some a \<and> a \<noteq> [] \<and> claimsByOwner w a = Inr claims \<and>
           map (callback w) claims = map Inr rs"
proof -
  from fetchReports_Inr [OF assms(1)] obtain a where a: "env = Some a" "a \<noteq> []"
    by (auto simp: configured_def)
  show ?thesis
  proof (cases "claimsByOwner w a")
    case (Inl e)
    from fetchReports_claims_failed [OF a assms(2) Inl, of sch] assms(1) show ?thesis by simp
  next
    case (Inr claims)
    from fetchReports_population [OF a assms(2) Inr, of sch] assms(1)
    have "map (callback w) claims = map Inr rs" by auto
    with a Inr show ?thesis by blast
  qed
qed

lemma distinct_key_unique:
  "distinct (map g xs) \<Longrightarrow> x \<in> set xs \<Longrightarrow> y \<in> set xs \<Longrightarrow> g x = g y \<Longrightarrow> x = y"
  by (meson distinct_map inj_onD)

lemma find_Some_set: "find P xs = Some x \<Longrightarrow> x \<in> set xs \<and> P x"
  by (induction xs) (auto split: if_splits)

lemma fetchReports_retry:
  assumes "env = Some a" "a \<noteq> []" "reports s = None"
  shows "\<exists>cs. calls (snd (fetchReports env w sch s)) = calls s @ ClaimsByOwner a # cs"
proof -
  let ?s1 = "(snd (getHypercertClient s))\<lparr>calls := calls s @ [ClaimsByOwner a]\<rparr>"
  show ?thesis
  proof (cases "fst (getHypercertClaims w a (snd (getHypercertClient s)))")
    case (Inl e)
    then show ?thesis
      unfolding fetchReports_miss [OF assms] by (simp add: Let_def)
  next
    case (Inr claims)
    let ?log = "calls ?s1 @ map (\<lambda>claim. GetMetadata (uri claim)) claims"
    from Promise_all_log [of w sch "map AwaitMetadata claims" ?log]
    obtain cs where "snd (Promise_all w sch (map AwaitMetadata claims) ?log) = ?log @ cs" by blast
    with Inr show ?thesis
      unfolding fetchReports_miss [OF assms]
      by (auto simp: Let_def split: prod.splits sum.splits)
  qed
qed

lemma callback_mismatch:
  assumes "getMetadata w (uri claim) = Inr metadata" "getCMSReports w = Inr fromCMS"
    and "\<forall>c \<in> set fromCMS. cms_title c \<noteq> name metadata"
  shows "callback w claim = Inl (cms_content_not_found (name metadata))"
proof -
  from assms(3) have "find (\<lambda>c. cms_title c = name metadata) fromCMS = None"
    by (auto simp: find_None_iff)
  with assms(1,2) show ?thesis by (simp add: callback_def getHypercertMetadata_def)
qed

lemma properties_0_value_None:
  "properties_0_value m = Inr st \<Longrightarrow>
   (st = None \<longleftrightarrow> properties m = None \<or> (\<exists>p ps. properties m = Some (p # ps) \<and> value p = None))"
  by (auto simp: properties_0_value_def split: option.splits list.splits)

lemma callback_state:
  assumes "getMetadata w (uri c) = Inr m" "callback w c = Inr r"
  shows "state r = None \<longleftrightarrow>
         properties m = None \<or> (\<exists>p ps. properties m = Some (p # ps) \<and> value p = None)"
proof -
  from callback_Inr [OF assms(2)] assms(1) obtain cmsReport st funded where
    st: "properties_0_value m = Inr st" and r: "r = buildReport c m cmsReport st funded"
    by auto
  from r have "state r = st" by (simp add: buildReport_def)
  with properties_0_value_None [OF st] show ?thesis by simp
qed

lemma callback_empty_properties:
  assumes "getMetadata w (uri claim) = Inr metadata" "properties metadata = Some []"
  shows "\<exists>e. callback w claim = Inl e"
    and "getCMSReports w = Inr fromCMS \<Longrightarrow>
         find (\<lambda>c. cms_title c = name metadata) fromCMS = Some cmsReport \<Longrightarrow>
         callback w claim =
           Inl (TypeError ''Cannot read properties of undefined (reading 'value')'')"
  using assms
  by (auto simp: callback_def getHypercertMetadata_def properties_0_value_def
      split: sum.splits option.splits)

section \<open>The concrete process\<close>

lemma example_callback: "callback example_remote example_claim = Inr example_report"
  by (simp add: callback_def example_remote_def getHypercertMetadata_def example_metadata_def
      example_cms_def properties_0_value_def example_report_def example_claim_def)

lemma example_Promise_all:
  "Promise_all example_remote [] [AwaitMetadata example_claim] log =
     (Inr [example_report], log @ [GetCMSReports, GetFundedAmountByHCId ''X''])"
  by (simp add: Promise_all.simps pending_def pick_def example_remote_def getHypercertMetadata_def example_metadata_def
      example_cms_def properties_0_value_def example_report_def example_claim_def)

lemma example_fetchReports:
  "fetchReports (Some ''0xA'') example_remote [] initial = (Inr [example_report], example_store)"
proof -
  have claims: "claimsByOwner example_remote ''0xA'' = Inr [example_claim]"
    by (simp add: example_remote_def)
  have uri: "uri example_claim = ''ipfs://foo''"
    by (simp add: example_claim_def)
  show ?thesis
    by (simp add: fetchReports_def getHypercertClient_def getHypercertClaims_def initial_def
        Let_def claims uri example_Promise_all example_store_def)
qed

lemma example_reachable: "reachable (Some ''0xA'') example_store"
  using reachable.fetchReports [OF reachable.init, of "Some ''0xA''" example_remote "[]"]
  by (simp add: example_fetchReports)

lemmas example_defs =
  example_claim_def second_claim_def example_metadata_def second_metadata_def
  example_cms_def second_cms_def example_remote_def pair_remote_def mismatch_remote_def
  timeout_remote_def empty_properties_remote_def valueless_metadata_def valueless_remote_def

lemma pair_Promise_all:
  "Promise_all pair_remote [1, 1, 1] [AwaitMetadata example_claim, AwaitMetadata second_claim] log =
     (Inr [example_report, second_report],
      log @ [GetCMSReports, GetFundedAmountByHCId ''Y'', GetCMSReports, GetFundedAmountByHCId ''X''])"
  by (simp add: Promise_all.simps pending_def pick_def pair_remote_def getHypercertMetadata_def
      example_metadata_def second_metadata_def example_cms_def second_cms_def
      properties_0_value_def example_report_def second_report_def example_claim_def
      second_claim_def)

lemma pair_fetchReports:
  "fetchReports (Some ''0xA'') pair_remote [1, 1, 1] initial =
     (Inr [example_report, second_report],
      \<lparr>reports = Some [example_report, second_report],
       hypercertClient = Some (HypercertClient 11155111),
       reportsMutex_locked = False,
       calls = [ClaimsByOwner ''0xA'', GetMetadata ''ipfs://foo'', GetMetadata ''ipfs://bar'',
                GetCMSReports, GetFundedAmountByHCId ''Y'',
                GetCMSReports, GetFundedAmountByHCId ''X'']\<rparr>)"
proof -
  have claims: "claimsByOwner pair_remote ''0xA'' = Inr [example_claim, second_claim]"
    by (simp add: pair_remote_def)
  have uri: "uri example_claim = ''ipfs://foo''" "uri second_claim = ''ipfs://bar''"
    by (simp_all add: example_claim_def second_claim_def)
  show ?thesis
    by (simp add: fetchReports_def getHypercertClient_def getHypercertClaims_def initial_def
        Let_def claims uri pair_Promise_all del: One_nat_def)
qed

lemma mismatch_fetchReports:
  "fetchReports (Some ''0xA'') mismatch_remote [] initial =
     (Inl (Error ''[server] Failed to fetch reports: Error: [server] CMS content for report titled 'Bar' not found.''),
      \<lparr>reports = None, hypercertClient = Some (HypercertClient 11155111),
       reportsMutex_locked = False,
       calls = [ClaimsByOwner ''0xA'', GetMetadata ''ipfs://foo'', GetMetadata ''ipfs://bar'',
                GetCMSReports, GetFundedAmountByHCId ''X'', GetCMSReports]\<rparr>)"
  by (simp add: fetchReports_def getHypercertClient_def getHypercertClaims_def initial_def
      Let_def Promise_all.simps pending_def pick_def getHypercertMetadata_def
      properties_0_value_def failed_to_fetch_reports_def cms_content_not_found_def quoted_def
      example_defs)

lemma empty_properties_fetchReports:
  "fetchReports (Some ''0xA'') empty_properties_remote [] initial =
     (Inl (Error ''[server] Failed to fetch reports: TypeError: Cannot read properties of undefined (reading 'value')''),
      \<lparr>reports = None, hypercertClient = Some (HypercertClient 11155111),
       reportsMutex_locked = False,
       calls = [ClaimsByOwner ''0xA'', GetMetadata ''ipfs://foo'', GetCMSReports]\<rparr>)"
  by (simp add: fetchReports_def getHypercertClient_def getHypercertClaims_def initial_def
      Let_def Promise_all.simps pending_def pick_def getHypercertMetadata_def
      properties_0_value_def failed_to_fetch_reports_def example_defs)

section \<open>Claims\<close>

text \<open>
  C1, as amended. In every population attempt (owner address set, nothing cached, the
  indexer answered), under every completion order: if some claim's metadata resolves to
  a name that no record of the editorial list has as its title, \<open>fetchReports\<close> throws
  the wrapped error of one of the callbacks that fail; that is the content-mismatch
  error of this claim whenever every other claim merges. The cache stays empty, no
  partial list is stored, and the next \<open>fetchReports\<close> asks the indexer again.
\<close>

theorem fetchReports_content_mismatch:
  assumes "env = Some ownerAddress" and "ownerAddress \<noteq> []" and "reports s = None"
    and "claimsByOwner w ownerAddress = Inr claims" and "claim \<in> set claims"
    and "getMetadata w (uri claim) = Inr metadata" and "getCMSReports w = Inr fromCMS"
    and "\<forall>c \<in> set fromCMS. cms_title c \<noteq> name metadata"
  shows "\<exists>e s'. fetchReports env w sch s = (Inl (failed_to_fetch_reports e), s') \<and>
           (\<exists>c \<in> set claims. callback w c = Inl e) \<and>
           ((\<forall>c \<in> set claims. c \<noteq> claim \<longrightarrow> (\<exists>r. callback w c = Inr r)) \<longrightarrow>
              e = cms_content_not_found (name metadata)) \<and>
           reports s' = None \<and> getReports s' = [] \<and>
           (\<forall>w' sch'. \<exists>cs. calls (snd (fetchReports env w' sch' s')) =
                              calls s' @ ClaimsByOwner ownerAddress # cs)"
proof -
  have mismatch: "callback w claim = Inl (cms_content_not_found (name metadata))"
    using callback_mismatch [OF assms(6-8)] .
  from fetchReports_population [OF assms(1-4), of sch]
  show ?thesis
  proof (elim disjE exE conjE)
    fix rs s'
    assume "map (callback w) claims = map Inr rs"
    from map_Inr_nth [OF this] assms(5) mismatch show ?thesis
      by (auto simp: in_set_conv_nth)
  next
    fix e s'
    assume f: "fetchReports env w sch s = (Inl (failed_to_fetch_reports e), s')"
      and c: "\<exists>c \<in> set claims. callback w c = Inl e" and n: "reports s' = None"
    have "e = cms_content_not_found (name metadata)"
      if "\<forall>c \<in> set claims. c \<noteq> claim \<longrightarrow> (\<exists>r. callback w c = Inr r)"
      using that c mismatch by auto
    moreover have "\<exists>cs. calls (snd (fetchReports env w' sch' s')) =
                         calls s' @ ClaimsByOwner ownerAddress # cs" for w' sch'
      using fetchReports_retry [OF assms(1,2) n] .
    ultimately show ?thesis using f c n by (auto simp: getReports_def)
  qed
qed

theorem fetchReports_content_mismatch_witness:
  "reports initial = None \<and>
   claimsByOwner mismatch_remote ''0xA'' = Inr [example_claim, second_claim] \<and>
   getMetadata mismatch_remote (uri second_claim) = Inr second_metadata \<and>
   getCMSReports mismatch_remote = Inr [example_cms] \<and>
   cms_title example_cms \<noteq> name second_metadata \<and>
   callback mismatch_remote example_claim = Inr example_report \<and>
   fetchReports (Some ''0xA'') mismatch_remote [] initial =
     (Inl (Error ''[server] Failed to fetch reports: Error: [server] CMS content for report titled 'Bar' not found.''),
      \<lparr>reports = None, hypercertClient = Some (HypercertClient 11155111),
       reportsMutex_locked = False,
       calls = [ClaimsByOwner ''0xA'', GetMetadata ''ipfs://foo'', GetMetadata ''ipfs://bar'',
                GetCMSReports, GetFundedAmountByHCId ''X'', GetCMSReports]\<rparr>) \<and>
   fst (fetchReports (Some ''0xA'') mismatch_remote [1, 1, 0] initial) =
     Inl (failed_to_fetch_reports (cms_content_not_found ''Bar''))"
proof -
  have h: "Some ''0xA'' = Some ''0xA''" "''0xA'' \<noteq> []" "reports initial = None"
    "claimsByOwner mismatch_remote ''0xA'' = Inr [example_claim, second_claim]"
    "second_claim \<in> set [example_claim, second_claim]"
    "getMetadata mismatch_remote (uri second_claim) = Inr second_metadata"
    "getCMSReports mismatch_remote = Inr [example_cms]"
    by (simp_all add: initial_def example_defs)
  have title: "cms_title example_cms \<noteq> name second_metadata"
    by (simp add: example_defs)
  then have titles: "\<forall>c \<in> set [example_cms]. cms_title c \<noteq> name second_metadata" by simp
  have first: "callback mismatch_remote example_claim = Inr example_report"
    by (simp add: callback_def getHypercertMetadata_def properties_0_value_def
        example_report_def example_defs)
  then have others: "\<forall>c \<in> set [example_claim, second_claim].
      c \<noteq> second_claim \<longrightarrow> (\<exists>r. callback mismatch_remote c = Inr r)" by simp
  have nm: "name second_metadata = ''Bar''" by (simp add: example_defs)
  from fetchReports_content_mismatch [OF h titles, of "[1, 1, 0]"] others nm
  have "fst (fetchReports (Some ''0xA'') mismatch_remote [1, 1, 0] initial) =
          Inl (failed_to_fetch_reports (cms_content_not_found ''Bar''))" by auto
  with h title first mismatch_fetchReports show ?thesis by simp
qed

text \<open>
  C1 as stated fails. The metadata of the second claim has resolved to a name without
  editorial record when the metadata lookup of the first claim is rejected:
  \<^verbatim>\<open>Promise.all\<close> rejects with that rejection, and \<open>fetchReports\<close> throws the wrapped
  metadata error, not a content-mismatch error.
\<close>

theorem fetchReports_content_mismatch_counterexample:
  "claimsByOwner timeout_remote ''0xA'' = Inr [example_claim, second_claim] \<and>
   getMetadata timeout_remote (uri second_claim) = Inr second_metadata \<and>
   getCMSReports timeout_remote = Inr [example_cms] \<and>
   cms_title example_cms \<noteq> name second_metadata \<and>
   Promise_all timeout_remote [1] [AwaitMetadata example_claim, AwaitMetadata second_claim] [] =
     Promise_all timeout_remote [] [AwaitMetadata example_claim, AwaitCMS second_claim second_metadata]
       [GetCMSReports] \<and>
   fst (fetchReports (Some ''0xA'') timeout_remote [1] initial) =
     Inl (Error ''[server] Failed to fetch reports: Error: [Hypercerts] Failed to fetch metadata of ipfs://foo: gateway timeout'') \<and>
   fst (fetchReports (Some ''0xA'') timeout_remote [1] initial) \<noteq>
     Inl (failed_to_fetch_reports (cms_content_not_found (name second_metadata)))"
  by (simp add: fetchReports_def getHypercertClient_def getHypercertClaims_def initial_def
      Let_def Promise_all.simps pending_def pick_def getHypercertMetadata_def
      properties_0_value_def failed_to_fetch_reports_def cms_content_not_found_def quoted_def
      example_defs)

text \<open>
  C2. In every process state whose cache holds a list, \<open>fetchReports\<close> returns that very
  list and leaves the store as it was, log of remote calls included: none of the
  collaborators is invoked. Hence after a first success every further call, against any
  collaborators and schedule, returns the same list, the second as the first. (A process
  state with a cached list has the owner address set: the module never writes the
  environment, and only a call that passed the guard fills the cache.)
\<close>

theorem fetchReports_cached:
  "(reachable env s \<and> reports s = Some rs \<longrightarrow> fetchReports env w sch s = (Inr rs, s)) \<and>
   (fetchReports env w sch s = (Inr rs, s1) \<longrightarrow>
      fetchReports env w' sch' s1 = (Inr rs, s1) \<and>
      fetchReports env w'' sch'' (snd (fetchReports env w' sch' s1)) = (Inr rs, s1))"
proof (intro conjI impI)
  assume "reachable env s \<and> reports s = Some rs"
  then show "fetchReports env w sch s = (Inr rs, s)"
    using reachable_inv [of env s] by (simp add: fetchReports_hit)
next
  assume a: "fetchReports env w sch s = (Inr rs, s1)"
  from fetchReports_Inr [OF a] show "fetchReports env w' sch' s1 = (Inr rs, s1)"
    by (simp add: fetchReports_hit)
  then show "fetchReports env w'' sch'' (snd (fetchReports env w' sch' s1)) = (Inr rs, s1)"
    using fetchReports_Inr [OF a] by (simp add: fetchReports_hit)
qed

theorem fetchReports_cached_witness:
  "reachable (Some ''0xA'') example_store \<and> reports example_store = Some [example_report] \<and>
   fetchReports (Some ''0xA'') example_remote [1, 0] example_store = (Inr [example_report], example_store) \<and>
   fetchReports (Some ''0xA'') example_remote [] initial = (Inr [example_report], example_store)"
  using fetchReports_cached [of "Some ''0xA''" example_store "[example_report]" example_remote "[1, 0]"]
    fetchReports_cached [of "Some ''0xA''" initial "[example_report]" example_remote "[]" example_store]
    example_reachable example_fetchReports
  by (simp add: example_store_def)

text \<open>
  C3. Every successful population, under every completion order \<open>sch\<close> of the lookups,
  returns one report per claim of the indexer's answer, in the order of that answer:
  the report at position \<open>i\<close> is what the callback makes of the claim at position \<open>i\<close>
  and carries its identifier; and every other completion order returns the same list.
\<close>

theorem fetchReports_order:
  assumes "fetchReports env w sch s = (Inr rs, s')" and "reports s = None"
  shows "\<exists>ownerAddress claims.
           env = Some ownerAddress \<and> claimsByOwner w ownerAddress = Inr claims \<and>
           length rs = length claims \<and>
           (\<forall>i<length claims.
              callback w (claims ! i) = Inr (rs ! i) \<and> hypercertId (rs ! i) = claim_id (claims ! i)) \<and>
           (\<forall>sch'. fst (fetchReports env w sch' s) = Inr rs)"
proof -
  from fetchReports_Inr_callbacks [OF assms] obtain a claims where
    a: "env = Some a" "a \<noteq> []" and claims: "claimsByOwner w a = Inr claims"
    and m: "map (callback w) claims = map Inr rs" by blast
  from map_Inr_nth [OF m]
  have len: "length rs = length claims"
    and nth: "\<forall>i<length claims. callback w (claims ! i) = Inr (rs ! i)" by simp_all
  have "fst (fetchReports env w sch' s) = Inr rs" for sch'
  proof -
    from fetchReports_population [OF a assms(2) claims, of sch']
    show ?thesis
    proof (elim disjE exE conjE)
      fix rs' s''
      assume "fetchReports env w sch' s = (Inr rs', s'')" "map (callback w) claims = map Inr rs'"
      with m show ?thesis by (simp add: inj_map_eq_map)
    next
      fix e s''
      assume "\<exists>c \<in> set claims. callback w c = Inl e"
      then obtain i where "i < length claims" "callback w (claims ! i) = Inl e"
        by (auto simp: in_set_conv_nth)
      with nth show ?thesis by simp
    qed
  qed
  with a claims len nth show ?thesis by (auto simp: callback_hypercertId)
qed

theorem fetchReports_order_witness:
  "fetchReports (Some ''0xA'') pair_remote [1, 1, 1] initial =
     (Inr [example_report, second_report],
      \<lparr>reports = Some [example_report, second_report],
       hypercertClient = Some (HypercertClient 11155111),
       reportsMutex_locked = False,
       calls = [ClaimsByOwner ''0xA'', GetMetadata ''ipfs://foo'', GetMetadata ''ipfs://bar'',
                GetCMSReports, GetFundedAmountByHCId ''Y'',
                GetCMSReports, GetFundedAmountByHCId ''X'']\<rparr>) \<and>
   reports initial = None \<and>
   claimsByOwner pair_remote ''0xA'' = Inr [example_claim, second_claim] \<and>
   hypercertId example_report = claim_id example_claim \<and>
   hypercertId second_report = claim_id second_claim \<and>
   fst (fetchReports (Some ''0xA'') pair_remote [0, 1, 0, 1] initial) =
     Inr [example_report, second_report]"
proof -
  have unpopulated: "reports initial = None" by (simp add: initial_def)
  have claims: "claimsByOwner pair_remote ''0xA'' = Inr [example_claim, second_claim]"
    by (simp add: pair_remote_def)
  from fetchReports_order [OF pair_fetchReports unpopulated]
  have "fst (fetchReports (Some ''0xA'') pair_remote [0, 1, 0, 1] initial) =
          Inr [example_report, second_report]" by blast
  with pair_fetchReports unpopulated claims show ?thesis
    by (simp add: example_report_def second_report_def buildReport_def)
qed

text \<open>
  C4. After a successful population, for a claim of the indexer's answer whose metadata
  resolves to the name \<open>Foo\<close> and an editorial record with title \<open>Foo\<close>, slug \<open>foo-1\<close> and
  total cost \<open>''100''\<close>, \<open>fetchReportBySlug ''foo-1''\<close> returns a report with
  \<open>totalCost = 100\<close> and the claim's identifier, and leaves the store as it is. Titles
  are the key of the editorial list and slugs are unique in the cache, as the data model
  assumes of them.
\<close>

theorem fetchReportBySlug_merged:
  assumes "fetchReports env w sch s = (Inr rs, s1)" and "reports s = None"
    and "env = Some ownerAddress" and "claimsByOwner w ownerAddress = Inr claims"
    and "claim \<in> set claims"
    and "getMetadata w (uri claim) = Inr metadata" and "name metadata = ''Foo''"
    and "getCMSReports w = Inr fromCMS" and "cmsReport \<in> set fromCMS"
    and "cms_title cmsReport = ''Foo''" and "cms_slug cmsReport = ''foo-1''"
    and "total_cost cmsReport = ''100''"
    and "distinct (map cms_title fromCMS)" and "distinct (map slug rs)"
  shows "\<exists>r. fetchReportBySlug env w' sch' ''foo-1'' s1 = (Inr r, s1) \<and>
             totalCost r = Num 100 \<and> hypercertId r = claim_id claim"
proof -
  from fetchReports_Inr_callbacks [OF assms(1,2)] assms(3,4)
  have "map (callback w) claims = map Inr rs" by auto
  from map_Inr_nth [OF this]
  have len: "length rs = length claims"
    and nth: "\<forall>i<length claims. callback w (claims ! i) = Inr (rs ! i)" by simp_all
  from assms(5) obtain i where i: "i < length claims" "claims ! i = claim"
    by (auto simp: in_set_conv_nth)
  with nth have cb: "callback w claim = Inr (rs ! i)" by auto
  from callback_Inr [OF cb] assms(6,8) obtain found st funded where
    found: "find (\<lambda>c. cms_title c = name metadata) fromCMS = Some found"
    and r: "rs ! i = buildReport claim metadata found st funded" by auto
  from find_Some_set [OF found] assms(7,9,10,13) have "found = cmsReport"
    using distinct_key_unique [of cms_title fromCMS found cmsReport] by simp
  with r assms(11,12) have fields: "slug (rs ! i) = ''foo-1''" "totalCost (rs ! i) = Num 100"
    "hypercertId (rs ! i) = claim_id claim"
    by (simp_all add: buildReport_def Number_100 del: Number.simps)
  from i len have mem: "rs ! i \<in> set rs" by simp
  with fields(1) assms(14) have look: "find (\<lambda>report. slug report = ''foo-1'') rs = Some (rs ! i)"
    using find_distinct_key [of slug rs "rs ! i"] by simp
  from fetchReports_Inr [OF assms(1)] have "fetchReports env w' sch' s1 = (Inr rs, s1)"
    by (simp add: fetchReports_hit)
  with look have "fetchReportBySlug env w' sch' ''foo-1'' s1 = (Inr (rs ! i), s1)"
    by (simp add: fetchReportBySlug_def Let_def)
  with fields show ?thesis by blast
qed

theorem fetchReportBySlug_merged_witness:
  "fetchReports (Some ''0xA'') example_remote [] initial = (Inr [example_report], example_store) \<and>
   reports initial = None \<and>
   claimsByOwner example_remote ''0xA'' = Inr [example_claim] \<and>
   getMetadata example_remote (uri example_claim) = Inr example_metadata \<and>
   name example_metadata = ''Foo'' \<and>
   getCMSReports example_remote = Inr [example_cms] \<and>
   cms_title example_cms = ''Foo'' \<and> cms_slug example_cms = ''foo-1'' \<and>
   total_cost example_cms = ''100'' \<and>
   distinct (map cms_title [example_cms]) \<and> distinct (map slug [example_report]) \<and>
   fetchReportBySlug (Some ''0xA'') example_remote [] ''foo-1'' example_store =
     (Inr example_report, example_store) \<and>
   totalCost example_report = Num 100 \<and> hypercertId example_report = claim_id example_claim"
proof -
  have h: "reports initial = None" "Some ''0xA'' = Some ''0xA''"
    "claimsByOwner example_remote ''0xA'' = Inr [example_claim]"
    "example_claim \<in> set [example_claim]"
    "getMetadata example_remote (uri example_claim) = Inr example_metadata"
    "name example_metadata = ''Foo''"
    "getCMSReports example_remote = Inr [example_cms]"
    "example_cms \<in> set [example_cms]"
    "cms_title example_cms = ''Foo''" "cms_slug example_cms = ''foo-1''"
    "total_cost example_cms = ''100''"
    "distinct (map cms_title [example_cms])" "distinct (map slug [example_report])"
    by (simp_all add: initial_def example_remote_def example_metadata_def example_cms_def)
  have look: "fetchReportBySlug (Some ''0xA'') example_remote [] ''foo-1'' example_store =
     (Inr example_report, example_store)"
    by (simp add: fetchReportBySlug_def fetchReports_def example_store_def Let_def)
       (simp add: example_report_def buildReport_def example_cms_def)
  from fetchReportBySlug_merged [OF example_fetchReports h, of example_remote "[]"] look
    example_fetchReports h
  show ?thesis by simp
qed

text \<open>
  C5. In every process state whose cache contains a report with \<open>hypercertId = hcId\<close> and
  \<open>fundedSoFar = f\<close>, the identifiers of the cached reports being distinct (the
  invariant of the data model), \<open>updateFundedAmount hcId a\<close> returns and replaces that
  report, at its position, by itself with \<open>fundedSoFar = f + a\<close>, for integers \<open>f\<close>, \<open>a\<close>
  and \<open>f + a\<close> of magnitude at most \<open>2 ^ 53\<close>, where double addition is exact; nothing
  else in the store changes, and looking the report up by its identifier afterwards
  yields the updated one. With \<open>f = 50\<close> and \<open>a = 25\<close> the report reads \<open>75\<close>.
\<close>

theorem updateFundedAmount_adds:
  assumes "reachable env s" and "reports s = Some rs"
    and "r \<in> set rs" and "hypercertId r = hcId" and "fundedSoFar r = Num f"
    and "\<bar>f\<bar> \<le> 2 ^ 53" and "\<bar>a\<bar> \<le> 2 ^ 53" and "\<bar>f + a\<bar> \<le> 2 ^ 53"
    and "distinct (map hypercertId rs)"
  shows "\<exists>i<length rs. rs ! i = r \<and>
           updateFundedAmount hcId (Num a) s =
             Some (s\<lparr>reports := Some (rs[i := r\<lparr>fundedSoFar := Num (f + a)\<rparr>])\<rparr>) \<and>
           find (\<lambda>r'. hypercertId r' = hcId) (rs[i := r\<lparr>fundedSoFar := Num (f + a)\<rparr>]) =
             Some (r\<lparr>fundedSoFar := Num (f + a)\<rparr>)"
proof -
  let ?P = "\<lambda>r'. hypercertId r' = hcId"
  let ?f = "\<lambda>r'. r'\<lparr>fundedSoFar := add (fundedSoFar r') (Num a)\<rparr>"
  let ?r' = "r\<lparr>fundedSoFar := Num (f + a)\<rparr>"
  from assms(1) have unlocked: "\<not> reportsMutex_locked s" using reachable_inv by blast
  from assms(3,4,9) have found: "find ?P rs = Some r"
    using find_distinct_key [of hypercertId rs r] by simp
  from find_first [OF found, of ?f] obtain i where
    i: "i < length rs" "rs ! i = r" "mutate_first ?P ?f rs = rs[i := ?f r]" by blast
  have "add (Num f) (Num a) = Num (f + a)" using add_exact [OF assms(8)] .
  with assms(5) have fr: "?f r = ?r'" by simp
  have "updateFundedAmount hcId (Num a) s = Some (s\<lparr>reports := Some (rs[i := ?r'])\<rparr>)"
    using unlocked found i(3) fr assms(2)
    by (simp add: updateFundedAmount_def Let_def getReports_def)
  moreover have "find ?P (rs[i := ?r']) = Some ?r'"
    using find_update_key [OF found _ i(1,2) assms(9), of ?r'] assms(4) by simp
  ultimately show ?thesis using i(1,2) by blast
qed

theorem updateFundedAmount_adds_witness:
  "reachable (Some ''0xA'') example_store \<and> reports example_store = Some [example_report] \<and>
   example_report \<in> set [example_report] \<and> hypercertId example_report = ''X'' \<and>
   fundedSoFar example_report = Num 50 \<and>
   \<bar>50 :: int\<bar> \<le> 2 ^ 53 \<and> \<bar>25 :: int\<bar> \<le> 2 ^ 53 \<and> \<bar>50 + 25 :: int\<bar> \<le> 2 ^ 53 \<and>
   distinct (map hypercertId [example_report]) \<and>
   updateFundedAmount ''X'' (Num 25) example_store =
     Some (example_store\<lparr>reports := Some [example_report\<lparr>fundedSoFar := Num 75\<rparr>]\<rparr>)"
proof -
  have h: "reports example_store = Some [example_report]"
    "example_report \<in> set [example_report]" "hypercertId example_report = ''X''"
    "fundedSoFar example_report = Num 50"
    "\<bar>50 :: int\<bar> \<le> 2 ^ 53" "\<bar>25 :: int\<bar> \<le> 2 ^ 53" "\<bar>50 + 25 :: int\<bar> \<le> 2 ^ 53"
    "distinct (map hypercertId [example_report])"
    by (simp_all add: example_store_def example_report_def buildReport_def example_claim_def)
  from updateFundedAmount_adds [OF example_reachable h] example_reachable h
  show ?thesis by simp
qed

text \<open>
  C6. When \<^verbatim>\<open>HC_OWNER_ADDRESS\<close> is absent, every call of \<open>fetchReports\<close> throws the
  configuration error at once, whatever the store, the collaborators and the schedule:
  the store comes back as it was, so no remote call was issued (the log is part of the
  store), no client was created and nothing was cached; the error is thrown outside the
  \<^verbatim>\<open>try\<close>, unwrapped, and no other address is used in its place.
\<close>

theorem fetchReports_owner_address_absent:
  "fetchReports None w sch s =
     (Inl (Error ''[server] Owner address environment variable is not set''), s)"
  by (simp add: fetchReports_not_configured configured_def)

text \<open>
  C7. In every process state in which no cached report has the given \<open>hypercertId\<close>
  (also when nothing is cached), \<open>updateFundedAmount\<close> returns, without a throw, and the
  store after it is the store before it: every field of every report, the mutex and the
  log of remote calls.
\<close>

theorem updateFundedAmount_unknown_id:
  assumes "reachable env s" and "\<forall>r \<in> set (getReports s). hypercertId r \<noteq> hcId"
  shows "updateFundedAmount hcId amount s = Some s"
proof -
  from assms(1) have "\<not> reportsMutex_locked s" using reachable_inv by blast
  moreover from assms(2) have "find (\<lambda>r. hypercertId r = hcId) (getReports s) = None"
    by (auto simp: find_None_iff)
  ultimately show ?thesis
    by (simp add: updateFundedAmount_def Let_def getReports_def)
qed

theorem updateFundedAmount_unknown_id_witness:
  "reachable (Some ''0xA'') example_store \<and>
   getReports example_store = [example_report] \<and>
   hypercertId example_report \<noteq> ''unknown-id'' \<and>
   updateFundedAmount ''unknown-id'' (Num 10) example_store = Some example_store"
proof -
  have cached: "getReports example_store = [example_report]"
    by (simp add: getReports_def example_store_def)
  have other: "hypercertId example_report \<noteq> ''unknown-id''"
    by (simp add: example_report_def buildReport_def example_claim_def)
  from cached other
  have ids: "\<forall>r \<in> set (getReports example_store). hypercertId r \<noteq> ''unknown-id''"
    by simp
  from updateFundedAmount_unknown_id [OF example_reachable ids] example_reachable cached other
  show ?thesis by simp
qed

text \<open>
  C8. In every process state whose cache holds a list without a report of the slug,
  \<open>fetchReportBySlug\<close> throws the not-found error and leaves the store, cache included,
  as it is. The error differs from everything \<open>fetchReportBySlug\<close> throws when its
  \<open>fetchReports\<close> fails, by the missing configuration or by a collaborator.
\<close>

theorem fetchReportBySlug_not_found:
  assumes "reachable env s" and "reports s = Some rs" and "\<forall>r \<in> set rs. slug r \<noteq> sl"
  shows "fetchReportBySlug env w sch sl s = (Inl (report_not_found sl), s) \<and>
         (\<forall>env' w' sch' s' e s''.
            fetchReports env' w' sch' s' = (Inl e, s'') \<longrightarrow>
            fst (fetchReportBySlug env' w' sch' sl s') \<noteq> Inl (report_not_found sl))"
proof -
  from assms(1,2) have "fetchReports env w sch s = (Inr rs, s)"
    using reachable_inv [of env s] by (simp add: fetchReports_hit)
  moreover from assms(3) have "find (\<lambda>report. slug report = sl) rs = None"
    by (auto simp: find_None_iff)
  ultimately have "fetchReportBySlug env w sch sl s = (Inl (report_not_found sl), s)"
    by (simp add: fetchReportBySlug_def report_not_found_def Let_def)
  then show ?thesis using fetchReportBySlug_fetch_failed by blast
qed

theorem fetchReportBySlug_not_found_witness:
  "reachable (Some ''0xA'') example_store \<and> reports example_store = Some [example_report] \<and>
   slug example_report \<noteq> ''nonexistent'' \<and>
   fetchReportBySlug (Some ''0xA'') example_remote [] ''nonexistent'' example_store =
     (Inl (Error ''[server] Failed to get report by slug nonexistent: Error: [server] Report with slug 'nonexistent' not found.''),
      example_store) \<and>
   fetchReports None example_remote [] initial =
     (Inl (Error ''[server] Owner address environment variable is not set''), initial) \<and>
   fst (fetchReportBySlug None example_remote [] ''nonexistent'' initial) \<noteq>
     Inl (report_not_found ''nonexistent'')"
proof -
  have cached: "reports example_store = Some [example_report]"
    by (simp add: example_store_def)
  have other: "slug example_report \<noteq> ''nonexistent''"
    by (simp add: example_report_def buildReport_def example_cms_def)
  then have slugs: "\<forall>r \<in> set [example_report]. slug r \<noteq> ''nonexistent''" by simp
  have absent: "fetchReports None example_remote [] initial =
     (Inl (Error ''[server] Owner address environment variable is not set''), initial)"
    by (simp add: fetchReports_def)
  from fetchReportBySlug_not_found [OF example_reachable cached slugs, of example_remote "[]"]
    example_reachable cached other absent
  show ?thesis by (simp add: report_not_found_def quoted_def)
qed

text \<open>
  C9. In every process state in which no \<open>fetchReports\<close> has succeeded, \<open>getReports\<close> is
  the empty list; once the cache holds a list, it is that list. \<open>getReports\<close> is a total
  function of the store alone: it has no collaborator to call, no schedule to wait for
  and returns no new store.
\<close>

theorem getReports_reads_cache:
  "(never_fetched env s \<longrightarrow> getReports s = []) \<and>
   (reports s' = Some rs \<longrightarrow> getReports s' = rs)"
  using never_fetched_unpopulated [of env s] by (auto simp: getReports_def)

theorem getReports_reads_cache_witness:
  "never_fetched None initial \<and> getReports initial = [] \<and>
   reports example_store = Some [example_report] \<and> getReports example_store = [example_report]"
  using getReports_reads_cache [of None initial example_store "[example_report]"]
    never_fetched.init [of None]
  by (simp add: example_store_def)

text \<open>
  C10, as amended. In every population attempt in which some claim's metadata resolves
  with a properties list that is present and empty, the claim's callback throws: the
  \<^verbatim>\<open>TypeError\<close> of the state field once its editorial record is found, an earlier error
  otherwise. So \<open>fetchReports\<close> throws a wrapped error under every completion order and
  the cache stays empty. A report has an undefined state exactly when the properties
  list is absent or its first entry has no value.
\<close>

theorem fetchReports_empty_properties:
  assumes "env = Some ownerAddress" and "ownerAddress \<noteq> []" and "reports s = None"
    and "claimsByOwner w ownerAddress = Inr claims" and "claim \<in> set claims"
    and "getMetadata w (uri claim) = Inr metadata" and "properties metadata = Some []"
  shows "(\<exists>e s'. fetchReports env w sch s = (Inl (failed_to_fetch_reports e), s') \<and>
            reports s' = None) \<and>
         (\<exists>e. callback w claim = Inl e) \<and>
         (getCMSReports w = Inr fromCMS \<and>
          find (\<lambda>c. cms_title c = name metadata) fromCMS = Some cmsReport \<longrightarrow>
            callback w claim =
              Inl (TypeError ''Cannot read properties of undefined (reading 'value')'')) \<and>
         (getMetadata w' (uri c) = Inr m \<and> callback w' c = Inr r \<longrightarrow>
            (state r = None \<longleftrightarrow>
             properties m = None \<or> (\<exists>p ps. properties m = Some (p # ps) \<and> value p = None)))"
proof -
  from callback_empty_properties(1) [OF assms(6,7)]
  obtain e0 where e0: "callback w claim = Inl e0" by blast
  have "\<exists>e s'. fetchReports env w sch s = (Inl (failed_to_fetch_reports e), s') \<and> reports s' = None"
    using fetchReports_population [OF assms(1-4), of sch]
  proof (elim disjE exE conjE)
    fix rs s'
    assume "map (callback w) claims = map Inr rs"
    from map_Inr_nth [OF this] assms(5) e0 show ?thesis
      by (auto simp: in_set_conv_nth)
  next
    fix e s'
    assume "fetchReports env w sch s = (Inl (failed_to_fetch_reports e), s')" "reports s' = None"
    then show ?thesis by blast
  qed
  then show ?thesis
    using e0 callback_empty_properties(2) [OF assms(6,7)] callback_state by blast
qed

theorem fetchReports_empty_properties_witness:
  "reports initial = None \<and>
   claimsByOwner empty_properties_remote ''0xA'' = Inr [example_claim] \<and>
   getMetadata empty_properties_remote (uri example_claim) =
     Inr (example_metadata\<lparr>properties := Some []\<rparr>) \<and>
   properties (example_metadata\<lparr>properties := Some []\<rparr>) = Some [] \<and>
   getCMSReports empty_properties_remote = Inr [example_cms] \<and>
   find (\<lambda>c. cms_title c = name (example_metadata\<lparr>properties := Some []\<rparr>)) [example_cms] =
     Some example_cms \<and>
   callback empty_properties_remote example_claim =
     Inl (TypeError ''Cannot read properties of undefined (reading 'value')'') \<and>
   fetchReports (Some ''0xA'') empty_properties_remote [] initial =
     (Inl (Error ''[server] Failed to fetch reports: TypeError: Cannot read properties of undefined (reading 'value')''),
      \<lparr>reports = None, hypercertClient = Some (HypercertClient 11155111),
       reportsMutex_locked = False,
       calls = [ClaimsByOwner ''0xA'', GetMetadata ''ipfs://foo'', GetCMSReports]\<rparr>) \<and>
   getMetadata pair_remote (uri second_claim) = Inr second_metadata \<and>
   callback pair_remote second_claim = Inr second_report \<and>
   properties second_metadata = None \<and> state second_report = None"
proof -
  let ?m = "example_metadata\<lparr>properties := Some []\<rparr>"
  have h: "Some ''0xA'' = Some ''0xA''" "''0xA'' \<noteq> []" "reports initial = None"
    "claimsByOwner empty_properties_remote ''0xA'' = Inr [example_claim]"
    "example_claim \<in> set [example_claim]"
    "getMetadata empty_properties_remote (uri example_claim) = Inr ?m"
    "properties ?m = Some []"
    by (simp_all add: initial_def example_defs)
  have cms: "getCMSReports empty_properties_remote = Inr [example_cms]"
    "find (\<lambda>c. cms_title c = name ?m) [example_cms] = Some example_cms"
    by (simp_all add: example_defs)
  have second: "getMetadata pair_remote (uri second_claim) = Inr second_metadata"
    "callback pair_remote second_claim = Inr second_report"
    "properties second_metadata = None"
    by (simp_all add: callback_def getHypercertMetadata_def properties_0_value_def
        second_report_def example_defs)
  from fetchReports_empty_properties [OF h, of "[]" "[example_cms]" example_cms pair_remote
      second_claim second_metadata second_report] cms second
  have "callback empty_properties_remote example_claim =
          Inl (TypeError ''Cannot read properties of undefined (reading 'value')'')"
    and "state second_report = None" by simp_all
  with h cms second empty_properties_fetchReports show ?thesis by simp
qed

text \<open>
  C10 as stated fails in its last part. The properties list is present, its first entry
  has no \<^verbatim>\<open>value\<close> (the SDK declares it \<^verbatim>\<open>value?: string\<close>): the population succeeds with
  a report of undefined state.
\<close>

theorem fetchReports_empty_properties_counterexample:
  "claimsByOwner valueless_remote ''0xA'' = Inr [example_claim] \<and>
   getMetadata valueless_remote (uri example_claim) = Inr valueless_metadata \<and>
   properties valueless_metadata = Some [\<lparr>trait_type = Some ''State'', value = None\<rparr>] \<and>
   fst (fetchReports (Some ''0xA'') valueless_remote [] initial) =
     Inr [example_report\<lparr>state := None\<rparr>] \<and>
   state (example_report\<lparr>state := None\<rparr>) = None"
  by (simp add: fetchReports_def getHypercertClient_def getHypercertClaims_def initial_def
      Let_def Promise_all.simps pending_def pick_def getHypercertMetadata_def
      properties_0_value_def work_scope_value_0_def example_report_def buildReport_def
      example_defs)

end
